theory Spec2Isabelle
  imports Main "HOL-Library.Char_ord"
begin

section \<open>Go library functions the program calls\<close>

text \<open>
  The program is Go; a Go \<^verbatim>\<open>string\<close> is a byte sequence and is modelled as
  \<^typ>\<open>string\<close>. The functions of this section model the parts of the Go standard
  library (\<^verbatim>\<open>strings\<close>, \<^verbatim>\<open>net/url\<close>, \<^verbatim>\<open>net/textproto\<close>, \<^verbatim>\<open>net/http\<close>, \<^verbatim>\<open>fmt\<close>) that
  \<^verbatim>\<open>jsonRequest\<close> calls. They are not code of this repository; each is written after the
  library function of the same name, as of Go 1.21. The general theorems below use them
  only through what the program does with their results; the examples evaluate them. The
  JSON encoder and decoder, whose behaviour depends on the Go type of the value, are left
  as parameters of the functions that call them.
\<close>

subsection \<open>Bytes and package strings\<close>

definition isLower :: "char \<Rightarrow> bool" where
  "isLower c = (CHR ''a'' \<le> c \<and> c \<le> CHR ''z'')"

definition isUpper :: "char \<Rightarrow> bool" where
  "isUpper c = (CHR ''A'' \<le> c \<and> c \<le> CHR ''Z'')"

definition isDigit :: "char \<Rightarrow> bool" where
  "isDigit c = (CHR ''0'' \<le> c \<and> c \<le> CHR ''9'')"

definition toLower :: "char \<Rightarrow> char" where
  "toLower c = (if isUpper c then char_of (of_char c + (32::nat)) else c)"

definition toUpper :: "char \<Rightarrow> char" where
  "toUpper c = (if isLower c then char_of (of_char c - (32::nat)) else c)"

definition TrimLeft :: "string \<Rightarrow> string \<Rightarrow> string" where
  "TrimLeft s cutset = dropWhile (\<lambda>c. c \<in> set cutset) s"

definition HasPrefix :: "string \<Rightarrow> string \<Rightarrow> bool" where
  "HasPrefix s p = (take (length p) s = p)"

definition HasSuffix :: "string \<Rightarrow> string \<Rightarrow> bool" where
  "HasSuffix s p = (length p \<le> length s \<and> drop (length s - length p) s = p)"

definition TrimSuffix :: "string \<Rightarrow> string \<Rightarrow> string" where
  "TrimSuffix s p = (if HasSuffix s p then take (length s - length p) s else s)"

text \<open>\<^verbatim>\<open>strings.Cut\<close> for a separator of one byte: the text before and after its first
  occurrence, and whether it occurs.\<close>

definition Cut :: "string \<Rightarrow> char \<Rightarrow> string \<times> string \<times> bool" where
  "Cut s sep =
     (if sep \<in> set s
      then (takeWhile (\<lambda>c. c \<noteq> sep) s, tl (dropWhile (\<lambda>c. c \<noteq> sep) s), True)
      else (s, [], False))"

definition ContainsByte :: "string \<Rightarrow> char \<Rightarrow> bool" where
  "ContainsByte s c = (c \<in> set s)"

definition CountByte :: "string \<Rightarrow> char \<Rightarrow> nat" where
  "CountByte s c = length (filter (\<lambda>x. x = c) s)"

text \<open>\<^verbatim>\<open>strings.LastIndex\<close> for a separator of one byte; \<open>None\<close> stands for \<open>-1\<close>.\<close>

fun LastIndexByte :: "string \<Rightarrow> char \<Rightarrow> nat option" where
  "LastIndexByte [] c = None"
| "LastIndexByte (x # s) c =
     (case LastIndexByte s c of
        Some i \<Rightarrow> Some (Suc i)
      | None \<Rightarrow> if x = c then Some 0 else None)"

text \<open>\<^verbatim>\<open>strings.Index(s, sub)\<close>; \<open>None\<close> stands for \<open>-1\<close>.\<close>

fun Index :: "string \<Rightarrow> string \<Rightarrow> nat option" where
  "Index [] sub = (if sub = [] then Some 0 else None)"
| "Index (x # s) sub =
     (if HasPrefix (x # s) sub then Some 0 else map_option Suc (Index s sub))"

text \<open>\<^verbatim>\<open>fmt\<close>'s \<^verbatim>\<open>%d\<close> of an \<^verbatim>\<open>int\<close>.\<close>

fun digits :: "nat \<Rightarrow> string" where
  "digits n =
     (if n < 10 then [''0123456789'' ! n]
      else digits (n div 10) @ [''0123456789'' ! (n mod 10)])"

definition itoa :: "int \<Rightarrow> string" where
  "itoa i = (if i < 0 then CHR ''-'' # digits (nat (- i)) else digits (nat i))"

subsection \<open>Package net/url\<close>

text \<open>
  \<^verbatim>\<open>url.URL\<close> and \<^verbatim>\<open>url.Userinfo\<close>. A \<^verbatim>\<open>*url.URL\<close> that may be \<^verbatim>\<open>nil\<close> is a
  \<open>URL option\<close>. A function that returns \<^verbatim>\<open>(x, error)\<close> and whose error value the program
  never inspects returns an option, \<open>None\<close> for every error.
\<close>

record Userinfo =
  username :: string
  password :: string
  passwordSet :: bool

record URL =
  Scheme :: string
  Opaque :: string
  User :: "Userinfo option"
  Host :: string
  Path :: string
  RawPath :: string
  OmitHost :: bool
  ForceQuery :: bool
  RawQuery :: string
  Fragment :: string
  RawFragment :: string

definition emptyURL :: URL where
  "emptyURL = \<lparr>Scheme = [], Opaque = [], User = None, Host = [], Path = [], RawPath = [],
     OmitHost = False, ForceQuery = False, RawQuery = [], Fragment = [], RawFragment = []\<rparr>"

datatype encoding = encodePath | encodePathSegment | encodeHost | encodeZone
  | encodeUserPassword | encodeQueryComponent | encodeFragment

definition ishex :: "char \<Rightarrow> bool" where
  "ishex c = (isDigit c \<or> (CHR ''a'' \<le> c \<and> c \<le> CHR ''f'') \<or> (CHR ''A'' \<le> c \<and> c \<le> CHR ''F''))"

definition unhex :: "char \<Rightarrow> nat" where
  "unhex c =
     (if isDigit c then of_char c - of_char CHR ''0''
      else if CHR ''a'' \<le> c \<and> c \<le> CHR ''f'' then of_char c - of_char CHR ''a'' + 10
      else if CHR ''A'' \<le> c \<and> c \<le> CHR ''F'' then of_char c - of_char CHR ''A'' + 10
      else 0)"

definition shouldEscape :: "char \<Rightarrow> encoding \<Rightarrow> bool" where
  "shouldEscape c mode =
     (if isLower c \<or> isUpper c \<or> isDigit c then False
      else if (mode = encodeHost \<or> mode = encodeZone) \<and> c \<in> set ''!$&'()*+,;=:[]<>\"'' then False
      else if c \<in> set ''-_.~'' then False
      else if c \<in> set ''$&+,/:;=?@'' \<and> mode = encodePath then c = CHR ''?''
      else if c \<in> set ''$&+,/:;=?@'' \<and> mode = encodePathSegment then c \<in> set ''/;,?''
      else if c \<in> set ''$&+,/:;=?@'' \<and> mode = encodeUserPassword then c \<in> set ''@/?:''
      else if c \<in> set ''$&+,/:;=?@'' \<and> mode = encodeQueryComponent then True
      else if c \<in> set ''$&+,/:;=?@'' \<and> mode = encodeFragment then False
      else if mode = encodeFragment \<and> c \<in> set ''!()*'' then False
      else True)"

text \<open>
  \<^verbatim>\<open>unescape\<close>: the library checks every escape and every byte first and builds the result
  afterwards; one pass that fails at the first offending position fails on the same inputs.
\<close>

fun unescape :: "string \<Rightarrow> encoding \<Rightarrow> string option" where
  "unescape [] mode = Some []"
| "unescape (c # s) mode =
     (if c = CHR ''%'' then
        (case s of
           h1 # h2 # rest \<Rightarrow>
             if \<not> ishex h1 \<or> \<not> ishex h2 then None
             else if mode = encodeHost \<and> unhex h1 < 8 \<and> [h1, h2] \<noteq> ''25'' then None
             else if mode = encodeZone \<and> [h1, h2] \<noteq> ''25''
                     \<and> char_of (unhex h1 * 16 + unhex h2) \<noteq> CHR '' ''
                     \<and> shouldEscape (char_of (unhex h1 * 16 + unhex h2)) encodeHost then None
             else map_option ((#) (char_of (unhex h1 * 16 + unhex h2))) (unescape rest mode)
         | _ \<Rightarrow> None)
      else if c = CHR ''+'' then
        map_option ((#) (if mode = encodeQueryComponent then CHR '' '' else CHR ''+''))
          (unescape s mode)
      else if (mode = encodeHost \<or> mode = encodeZone) \<and> c < CHR 0x80
              \<and> shouldEscape c encodeHost then None
      else map_option ((#) c) (unescape s mode))"

definition upperhex :: string where
  "upperhex = ''0123456789ABCDEF''"

definition escape :: "string \<Rightarrow> encoding \<Rightarrow> string" where
  "escape s mode =
     concat (map (\<lambda>c.
       if shouldEscape c mode then
         (if c = CHR '' '' \<and> mode = encodeQueryComponent then ''+''
          else [CHR ''%'', upperhex ! (of_char c div 16), upperhex ! (of_char c mod 16)])
       else [c]) s)"

definition validEncoded :: "string \<Rightarrow> encoding \<Rightarrow> bool" where
  "validEncoded s mode =
     list_all (\<lambda>c. c \<in> set ''!$&'()*+,;=:@[]%'' \<or> \<not> shouldEscape c mode) s"

definition setPath :: "URL \<Rightarrow> string \<Rightarrow> URL option" where
  "setPath u p =
     (case unescape p encodePath of
        None \<Rightarrow> None
      | Some path \<Rightarrow>
          Some (u\<lparr>Path := path,
                  RawPath := (if p = escape path encodePath then [] else p)\<rparr>))"

definition setFragment :: "URL \<Rightarrow> string \<Rightarrow> URL option" where
  "setFragment u f =
     (case unescape f encodeFragment of
        None \<Rightarrow> None
      | Some frag \<Rightarrow>
          Some (u\<lparr>Fragment := frag,
                  RawFragment := (if f = escape frag encodeFragment then [] else f)\<rparr>))"

definition EscapedPath :: "URL \<Rightarrow> string" where
  "EscapedPath u =
     (if RawPath u \<noteq> [] \<and> validEncoded (RawPath u) encodePath
         \<and> unescape (RawPath u) encodePath = Some (Path u) then RawPath u
      else if Path u = ''*'' then ''*''
      else escape (Path u) encodePath)"

definition EscapedFragment :: "URL \<Rightarrow> string" where
  "EscapedFragment u =
     (if RawFragment u \<noteq> [] \<and> validEncoded (RawFragment u) encodeFragment
         \<and> unescape (RawFragment u) encodeFragment = Some (Fragment u) then RawFragment u
      else escape (Fragment u) encodeFragment)"

text \<open>
  \<^verbatim>\<open>getScheme\<close>: the second argument is the prefix \<^verbatim>\<open>rawURL[:i]\<close> read so far, so
  \<^verbatim>\<open>i == 0\<close> is \<open>pre = []\<close>. \<open>None\<close> is the error "missing protocol scheme".
\<close>

fun getScheme_from :: "string \<Rightarrow> string \<Rightarrow> string \<Rightarrow> (string \<times> string) option" where
  "getScheme_from rawURL pre [] = Some ([], rawURL)"
| "getScheme_from rawURL pre (c # rest) =
     (if isLower c \<or> isUpper c then getScheme_from rawURL (pre @ [c]) rest
      else if isDigit c \<or> c \<in> set ''+-.'' then
        (if pre = [] then Some ([], rawURL) else getScheme_from rawURL (pre @ [c]) rest)
      else if c = CHR '':'' then
        (if pre = [] then None else Some (pre, rest))
      else Some ([], rawURL))"

definition getScheme :: "string \<Rightarrow> (string \<times> string) option" where
  "getScheme rawURL = getScheme_from rawURL [] rawURL"

definition stringContainsCTLByte :: "string \<Rightarrow> bool" where
  "stringContainsCTLByte s = list_ex (\<lambda>b. b < CHR '' '' \<or> b = CHR 0x7F) s"

definition validOptionalPort :: "string \<Rightarrow> bool" where
  "validOptionalPort port =
     (case port of
        [] \<Rightarrow> True
      | c # ds \<Rightarrow> c = CHR '':'' \<and> list_all isDigit ds)"

definition validUserinfo :: "string \<Rightarrow> bool" where
  "validUserinfo s =
     list_all (\<lambda>r. isUpper r \<or> isLower r \<or> isDigit r \<or> r \<in> set ''-._:~!$&'()*+,;=%@'') s"

definition parseHost :: "string \<Rightarrow> string option" where
  "parseHost host =
     (if HasPrefix host ''['' then
        (case LastIndexByte host CHR '']'' of
           None \<Rightarrow> None
         | Some i \<Rightarrow>
             if \<not> validOptionalPort (drop (i + 1) host) then None
             else
               (case Index (take i host) ''%25'' of
                  Some zone \<Rightarrow>
                    (case (unescape (take zone host) encodeHost,
                           unescape (drop zone (take i host)) encodeZone,
                           unescape (drop i host) encodeHost) of
                       (Some host1, Some host2, Some host3) \<Rightarrow> Some (host1 @ host2 @ host3)
                     | _ \<Rightarrow> None)
                | None \<Rightarrow> unescape host encodeHost))
      else
        (case LastIndexByte host CHR '':'' of
           Some i \<Rightarrow>
             if \<not> validOptionalPort (drop i host) then None else unescape host encodeHost
         | None \<Rightarrow> unescape host encodeHost))"

definition parseAuthority :: "string \<Rightarrow> (Userinfo option \<times> string) option" where
  "parseAuthority authority =
     (case LastIndexByte authority CHR ''@'' of
        None \<Rightarrow> map_option (Pair None) (parseHost authority)
      | Some i \<Rightarrow>
          (case parseHost (drop (i + 1) authority) of
             None \<Rightarrow> None
           | Some host \<Rightarrow>
               let userinfo = take i authority in
               if \<not> validUserinfo userinfo then None
               else if \<not> ContainsByte userinfo CHR '':'' then
                 (case unescape userinfo encodeUserPassword of
                    None \<Rightarrow> None
                  | Some name \<Rightarrow>
                      Some (Some \<lparr>username = name, password = [], passwordSet = False\<rparr>, host))
               else
                 (case Cut userinfo CHR '':'' of
                    (name, pass, _) \<Rightarrow>
                      (case (unescape name encodeUserPassword,
                             unescape pass encodeUserPassword) of
                         (Some name', Some pass') \<Rightarrow>
                           Some (Some \<lparr>username = name', password = pass',
                                       passwordSet = True\<rparr>, host)
                       | _ \<Rightarrow> None))))"

text \<open>
  \<^verbatim>\<open>parse(rawURL, viaRequest)\<close> with \<^verbatim>\<open>viaRequest = false\<close>, the only way \<^verbatim>\<open>url.Parse\<close>
  calls it.
\<close>

definition parse :: "string \<Rightarrow> URL option" where
  "parse rawURL =
     (if stringContainsCTLByte rawURL then None
      else if rawURL = ''*'' then Some (emptyURL\<lparr>Path := ''*''\<rparr>)
      else
        (case getScheme rawURL of
           None \<Rightarrow> None
         | Some (scheme, rest0) \<Rightarrow>
             let url0 = emptyURL\<lparr>Scheme := map toLower scheme\<rparr>;
                 forced = (HasSuffix rest0 ''?'' \<and> CountByte rest0 CHR ''?'' = 1);
                 rest = (if forced then butlast rest0 else fst (Cut rest0 CHR ''?''));
                 url = (if forced then url0\<lparr>ForceQuery := True\<rparr>
                        else url0\<lparr>RawQuery := fst (snd (Cut rest0 CHR ''?''))\<rparr>)
             in
               if \<not> HasPrefix rest ''/'' \<and> Scheme url \<noteq> [] then Some (url\<lparr>Opaque := rest\<rparr>)
               else if \<not> HasPrefix rest ''/''
                       \<and> ContainsByte (fst (Cut rest CHR ''/'')) CHR '':'' then None
               else if (Scheme url \<noteq> [] \<or> \<not> HasPrefix rest ''///'') \<and> HasPrefix rest ''//'' then
                 (let authority0 = drop 2 rest;
                      authority = (case Index authority0 ''/'' of
                                     Some i \<Rightarrow> take i authority0 | None \<Rightarrow> authority0);
                      rest' = (case Index authority0 ''/'' of
                                 Some i \<Rightarrow> drop i authority0 | None \<Rightarrow> [])
                  in case parseAuthority authority of
                       None \<Rightarrow> None
                     | Some (user, host) \<Rightarrow> setPath (url\<lparr>User := user, Host := host\<rparr>) rest')
               else if Scheme url \<noteq> [] \<and> HasPrefix rest ''/'' then
                 setPath (url\<lparr>OmitHost := True\<rparr>) rest
               else setPath url rest))"

definition Parse :: "string \<Rightarrow> URL option" where
  "Parse rawURL =
     (case Cut rawURL CHR ''#'' of
        (u, frag, _) \<Rightarrow>
          (case parse u of
             None \<Rightarrow> None
           | Some url \<Rightarrow> if frag = [] then Some url else setFragment url frag))"

text \<open>\<^verbatim>\<open>strings.Split\<close> for a separator of one byte.\<close>

fun Split :: "string \<Rightarrow> char \<Rightarrow> string list" where
  "Split [] sep = [[]]"
| "Split (c # s) sep =
     (if c = sep then [] # Split s sep
      else (case Split s sep of
              x # xs \<Rightarrow> (c # x) # xs
            | [] \<Rightarrow> [[c]]))"

text \<open>
  \<^verbatim>\<open>resolvePath\<close>. Its loop takes the elements between the slashes of \<^verbatim>\<open>full\<close> one by one
  (repeated \<^verbatim>\<open>strings.Cut\<close>, here the list \<open>Split full CHR ''/''\<close>); the loop state is the
  builder \<^verbatim>\<open>dst\<close> and the flag \<^verbatim>\<open>first\<close>.
\<close>

definition resolvePath_step :: "string \<times> bool \<Rightarrow> string \<Rightarrow> string \<times> bool" where
  "resolvePath_step st elem =
     (case st of
        (dst, first) \<Rightarrow>
          if elem = ''.'' then (dst, False)
          else if elem = ''..'' then
            (case LastIndexByte (tl dst) CHR ''/'' of
               None \<Rightarrow> (''/'', True)
             | Some index \<Rightarrow> (''/'' @ take index (tl dst), first))
          else ((if first then dst else dst @ ''/'') @ elem, False))"

definition resolvePath :: "string \<Rightarrow> string \<Rightarrow> string" where
  "resolvePath base ref =
     (let full =
            (if ref = [] then base
             else if hd ref \<noteq> CHR ''/'' then
               (case LastIndexByte base CHR ''/'' of
                  Some i \<Rightarrow> take (i + 1) base
                | None \<Rightarrow> []) @ ref
             else ref)
      in if full = [] then []
         else
           let elems = Split full CHR ''/'';
               dst = fst (foldl resolvePath_step (''/'', True) elems);
               r = (if last elems = ''.'' \<or> last elems = ''..'' then dst @ ''/'' else dst)
           in if length r > 1 \<and> r ! 1 = CHR ''/'' then tl r else r)"

text \<open>\<^verbatim>\<open>ResolveReference\<close> ignores the error of \<^verbatim>\<open>setPath\<close>, which then has set nothing.\<close>

definition setPath_ignoring_error :: "URL \<Rightarrow> string \<Rightarrow> URL" where
  "setPath_ignoring_error u p = (case setPath u p of Some u' \<Rightarrow> u' | None \<Rightarrow> u)"

definition ResolveReference :: "URL \<Rightarrow> URL \<Rightarrow> URL" where
  "ResolveReference u ref =
     (let url = (if Scheme ref = [] then ref\<lparr>Scheme := Scheme u\<rparr> else ref) in
      if Scheme ref \<noteq> [] \<or> Host ref \<noteq> [] \<or> User ref \<noteq> None then
        setPath_ignoring_error url (resolvePath (EscapedPath ref) [])
      else if Opaque ref \<noteq> [] then url\<lparr>User := None, Host := [], Path := []\<rparr>
      else
        let url1 =
              (if Path ref = [] \<and> \<not> ForceQuery ref \<and> RawQuery ref = [] then
                 (if Fragment ref = [] then
                    url\<lparr>RawQuery := RawQuery u, Fragment := Fragment u,
                        RawFragment := RawFragment u\<rparr>
                  else url\<lparr>RawQuery := RawQuery u\<rparr>)
               else url)
        in if Path ref = [] \<and> Opaque u \<noteq> [] then
             url1\<lparr>Opaque := Opaque u, User := None, Host := [], Path := []\<rparr>
           else
             setPath_ignoring_error (url1\<lparr>Host := Host u, User := User u\<rparr>)
               (resolvePath (EscapedPath u) (EscapedPath ref)))"

definition Userinfo_String :: "Userinfo \<Rightarrow> string" where
  "Userinfo_String ui =
     escape (username ui) encodeUserPassword
     @ (if passwordSet ui then '':'' @ escape (password ui) encodeUserPassword else [])"

text \<open>\<^verbatim>\<open>(*URL).String\<close>; the four parts are what it writes to its buffer, in order.\<close>

definition URL_String :: "URL \<Rightarrow> string" where
  "URL_String u =
     (let scheme = (if Scheme u \<noteq> [] then Scheme u @ '':'' else []);
          authority =
            (if Opaque u = [] \<and> (Scheme u \<noteq> [] \<or> Host u \<noteq> [] \<or> User u \<noteq> None)
                \<and> \<not> (OmitHost u \<and> Host u = [] \<and> User u = None) then
               (if Host u \<noteq> [] \<or> Path u \<noteq> [] \<or> User u \<noteq> None then ''//'' else [])
               @ (case User u of Some ui \<Rightarrow> Userinfo_String ui @ ''@'' | None \<Rightarrow> [])
               @ (if Host u \<noteq> [] then escape (Host u) encodeHost else [])
             else []);
          path = EscapedPath u;
          body =
            (if Opaque u \<noteq> [] then Opaque u
             else authority
               @ (if path \<noteq> [] \<and> hd path \<noteq> CHR ''/'' \<and> Host u \<noteq> [] then ''/'' else [])
               @ (if scheme @ authority = [] \<and> \<not> (path \<noteq> [] \<and> hd path \<noteq> CHR ''/'' \<and> Host u \<noteq> [])
                     \<and> ContainsByte (fst (Cut path CHR ''/'')) CHR '':'' then ''./'' else [])
               @ path)
      in scheme @ body
         @ (if ForceQuery u \<or> RawQuery u \<noteq> [] then ''?'' @ RawQuery u else [])
         @ (if Fragment u \<noteq> [] then ''#'' @ EscapedFragment u else []))"

subsection \<open>Package net/textproto and http.Header\<close>

definition validHeaderFieldByte :: "char \<Rightarrow> bool" where
  "validHeaderFieldByte c =
     (isLower c \<or> isUpper c \<or> isDigit c \<or> c \<in> set ''!#$%&'*+-.^_`|~'')"

text \<open>
  The canonical form of a header name: the first letter and every letter after a hyphen in
  upper case, the other letters in lower case. A name with a byte that is not valid in a
  header field name is left as it is.
\<close>

fun canonicalMIMEHeaderKey :: "bool \<Rightarrow> string \<Rightarrow> string" where
  "canonicalMIMEHeaderKey upper [] = []"
| "canonicalMIMEHeaderKey upper (c # s) =
     (let c' = (if upper \<and> isLower c then toUpper c
                else if \<not> upper \<and> isUpper c then toLower c
                else c)
      in c' # canonicalMIMEHeaderKey (c' = CHR ''-'') s)"

definition CanonicalMIMEHeaderKey :: "string \<Rightarrow> string" where
  "CanonicalMIMEHeaderKey s =
     (if list_all validHeaderFieldByte s then canonicalMIMEHeaderKey True s else s)"

text \<open>
  \<^verbatim>\<open>http.Header\<close> is \<^verbatim>\<open>map[string][]string\<close>. It is modelled as an association list
  with one entry for each key, because the program ranges over it; it is read through
  \<^const>\<open>map_of\<close> only, so the order of the entries (Go leaves the order of a range over a
  map open) is never observed.
\<close>

type_synonym Header = "(string \<times> string list) list"

text \<open>\<^verbatim>\<open>h[key]\<close>: the \<^verbatim>\<open>nil\<close> slice for a key that is absent.\<close>

definition Header_values :: "Header \<Rightarrow> string \<Rightarrow> string list" where
  "Header_values h key = (case map_of h key of None \<Rightarrow> [] | Some vs \<Rightarrow> vs)"

text \<open>\<^verbatim>\<open>h[key] = vs\<close>.\<close>

definition Header_store :: "Header \<Rightarrow> string \<Rightarrow> string list \<Rightarrow> Header" where
  "Header_store h key vs =
     (if key \<in> fst ` set h then map (\<lambda>p. if fst p = key then (key, vs) else p) h
      else h @ [(key, vs)])"

definition Header_Add :: "Header \<Rightarrow> string \<Rightarrow> string \<Rightarrow> Header" where
  "Header_Add h key value =
     (let key = CanonicalMIMEHeaderKey key
      in Header_store h key (Header_values h key @ [value]))"

definition Header_Set :: "Header \<Rightarrow> string \<Rightarrow> string \<Rightarrow> Header" where
  "Header_Set h key value = Header_store h (CanonicalMIMEHeaderKey key) [value]"

definition Header_Get :: "Header \<Rightarrow> string \<Rightarrow> string" where
  "Header_Get h key =
     (case Header_values h (CanonicalMIMEHeaderKey key) of [] \<Rightarrow> [] | v # _ \<Rightarrow> v)"

subsection \<open>Errors and package net/http\<close>

text \<open>
  A Go \<^verbatim>\<open>error\<close> is an interface value: \<open>None\<close> is \<^verbatim>\<open>nil\<close>. \<open>ErrorString s\<close> is the
  error made by \<^verbatim>\<open>errors.New(s)\<close> and by \<^verbatim>\<open>fmt.Errorf\<close>, whose message is \<open>s\<close>;
  \<open>SyntaxError msg offset\<close> is a \<^verbatim>\<open>*json.SyntaxError\<close>; \<open>InvalidMethod\<close> and
  \<open>URLParseError\<close> are the two errors of \<^verbatim>\<open>http.NewRequest\<close>; \<open>Custom v\<close> is any other
  value used as an error, of the type \<open>'v\<close> of the values that the caller and the JSON
  package supply.
\<close>

datatype 'v error =
    ErrorString string
  | SyntaxError string int
  | InvalidMethod string
  | URLParseError string
  | Custom 'v

definition StatusBadRequest :: int where
  "StatusBadRequest = 400"

text \<open>The fields of \<^verbatim>\<open>http.Response\<close> and \<^verbatim>\<open>http.Request\<close> that the program and its tests use.\<close>

record http_Response =
  StatusCode :: int
  Response_Body :: string

record http_Request =
  Method :: string
  Request_URL :: URL
  Request_Header :: Header
  Request_Host :: string
  Request_Body :: string

definition validMethod :: "string \<Rightarrow> bool" where
  "validMethod m = (m \<noteq> [] \<and> list_all validHeaderFieldByte m)"

definition removeEmptyPort :: "string \<Rightarrow> string" where
  "removeEmptyPort host =
     (let hasPort =
            (case (LastIndexByte host CHR '':'', LastIndexByte host CHR '']'') of
               (Some i, Some j) \<Rightarrow> j < i
             | (Some i, None) \<Rightarrow> True
             | (None, _) \<Rightarrow> False)
      in if hasPort then TrimSuffix host '':'' else host)"

definition NewRequest :: "string \<Rightarrow> string \<Rightarrow> string \<Rightarrow> 'v error + http_Request" where
  "NewRequest method url body =
     (let method = (if method = [] then ''GET'' else method) in
      if \<not> validMethod method then Inl (InvalidMethod method)
      else
        (case Parse url of
           None \<Rightarrow> Inl (URLParseError url)
         | Some u \<Rightarrow>
             Inr \<lparr>Method = method,
                  Request_URL = u\<lparr>Host := removeEmptyPort (Host u)\<rparr>,
                  Request_Header = [],
                  Request_Host = removeEmptyPort (Host u),
                  Request_Body = body\<rparr>))"

section \<open>Connection pool and throttled client\<close>

text \<open>
  \<^verbatim>\<open>NewConnectionPool\<close> of \<^verbatim>\<open>connection_pool.go\<close> and the constructor of the throttled
  client with its semaphore. Go's \<^verbatim>\<open>int\<close> is modelled as \<^typ>\<open>int\<close>: the pool code only
  compares and copies the pool size, so no arithmetic can overflow. A function that can
  panic returns a \<open>result\<close>: the panic, the error it returns, or its value.
\<close>

datatype panic = NilPointerDereference | MakechanSizeOutOfRange

datatype ('e, 'a) result = Panics panic | Fails 'e | Returns 'a

definition DefaultPoolSize :: int where
  "DefaultPoolSize = 8"

record Config =
  PoolSize :: int
  SkipSSLValidation :: bool

text \<open>
  \<^verbatim>\<open>type semaphore chan nothing\<close>: a buffered channel of empty structs. The record keeps
  the capacity the channel was made with and the number of elements it holds.
\<close>

record semaphore =
  capacity :: int
  held :: nat

text \<open>\<^verbatim>\<open>make(semaphore, n)\<close> panics for a negative size.\<close>

definition make_semaphore :: "int \<Rightarrow> (unit, semaphore) result" where
  "make_semaphore n =
     (if n < 0 then Panics MakechanSizeOutOfRange
      else Returns \<lparr>capacity = n, held = 0\<rparr>)"

text \<open>The \<^verbatim>\<open>http.Transport\<close> fields that \<^verbatim>\<open>NewConnectionPool\<close> sets.\<close>

record Transport =
  MaxIdleConnsPerHost :: int
  InsecureSkipVerify :: bool

record throttledHTTPClient =
  sem :: semaphore
  netHTTPClient :: Transport

definition newThrottledHTTPClient :: "Transport \<Rightarrow> int \<Rightarrow> (unit, throttledHTTPClient) result" where
  "newThrottledHTTPClient client maxRequests =
     (case make_semaphore maxRequests of
        Panics p \<Rightarrow> Panics p
      | Fails e \<Rightarrow> Fails e
      | Returns s \<Rightarrow> Returns \<lparr>sem = s, netHTTPClient = client\<rparr>)"

record pool =
  pool_Config :: Config
  pool_client :: throttledHTTPClient

definition NewConnectionPool :: "Config \<Rightarrow> (unit, pool) result" where
  "NewConnectionPool config =
     (let poolSize = PoolSize config;
          poolSize = (if poolSize \<le> 0 then DefaultPoolSize else poolSize)
      in case newThrottledHTTPClient
                \<lparr>MaxIdleConnsPerHost = poolSize,
                 InsecureSkipVerify = SkipSSLValidation config\<rparr> poolSize of
           Panics p \<Rightarrow> Panics p
         | Fails e \<Rightarrow> Fails e
         | Returns c \<Rightarrow> Returns \<lparr>pool_Config = config, pool_client = c\<rparr>)"

section \<open>JSON requests (json_request.go)\<close>

text \<open>
  \<^verbatim>\<open>type JSON interface{}\<close>: a value together with what its dynamic type implements.
  \<open>Value\<close> is the value itself (for a pointer, what it points to, which the decoder
  fills); \<open>Errorable\<close> is its \<^verbatim>\<open>AsError\<close> method when the type implements
  \<^verbatim>\<open>Errorable\<close>; \<open>implementsError\<close> tells whether the type implements \<^verbatim>\<open>error\<close>.
  A \<^verbatim>\<open>nil\<close> interface is \<open>None\<close> of \<open>'v JSON option\<close>.
\<close>

record 'v JSON =
  Value :: 'v
  Errorable :: "('v \<Rightarrow> 'v error option) option"
  implementsError :: bool

record 'v jsonRequest =
  "method" :: string
  path :: string
  body :: "'v JSON option"
  success :: "'v JSON option"
  failure :: "'v JSON option"
  statusErrors :: "int \<Rightarrow> 'v error option option"
  headers :: Header
  URL :: "URL option"

definition JSONRequest :: "string \<Rightarrow> string \<Rightarrow> 'v jsonRequest" where
  "JSONRequest m p =
     \<lparr>method = m, path = p, body = None, success = None, failure = None,
      statusErrors = Map.empty, headers = [], URL = None\<rparr>"

definition Header :: "'v jsonRequest \<Rightarrow> string \<Rightarrow> string \<Rightarrow> 'v jsonRequest" where
  "Header request name value = request\<lparr>headers := Header_Add (headers request) name value\<rparr>"

definition Body :: "'v jsonRequest \<Rightarrow> 'v JSON option \<Rightarrow> 'v jsonRequest" where
  "Body request b = request\<lparr>body := b\<rparr>"

definition Response :: "'v jsonRequest \<Rightarrow> 'v JSON option \<Rightarrow> 'v jsonRequest" where
  "Response request b = request\<lparr>success := b, failure := b\<rparr>"

definition Success :: "'v jsonRequest \<Rightarrow> 'v JSON option \<Rightarrow> 'v jsonRequest" where
  "Success request b = request\<lparr>success := b\<rparr>"

definition Failure :: "'v jsonRequest \<Rightarrow> 'v JSON option \<Rightarrow> 'v jsonRequest" where
  "Failure request b = request\<lparr>failure := b\<rparr>"

definition StatusError :: "'v jsonRequest \<Rightarrow> int \<Rightarrow> 'v error option \<Rightarrow> 'v jsonRequest" where
  "StatusError request statusCode err =
     request\<lparr>statusErrors := (statusErrors request)(statusCode \<mapsto> err)\<rparr>"

text \<open>
  The two loops of \<^verbatim>\<open>HTTPRequest\<close> that add every value of every accumulated header to
  the header of the new request.
\<close>

definition addValues :: "Header \<Rightarrow> string \<Rightarrow> string list \<Rightarrow> Header" where
  "addValues h name vs = foldl (\<lambda>h value. Header_Add h name value) h vs"

definition addHeaders :: "Header \<Rightarrow> Header \<Rightarrow> Header" where
  "addHeaders h hs = foldl (\<lambda>h (name, vs). addValues h name vs) h hs"

text \<open>
  \<^verbatim>\<open>HTTPRequest\<close>. The receiver is a pointer, so the function returns the receiver as it
  leaves it next to its outcome; on success the responder it returns is that receiver.
  \<open>Encode\<close> is \<^verbatim>\<open>json.NewEncoder(body).Encode\<close>: the bytes it writes, or its error.
  \<^verbatim>\<open>url.Parse\<close> returns a \<^verbatim>\<open>nil\<close> URL with its error, the error is dropped, and
  \<^verbatim>\<open>ResolveReference\<close> starts by reading through its argument: a \<^verbatim>\<open>nil\<close> argument is a
  run-time panic. The base URL is a URL, not \<^verbatim>\<open>nil\<close>.
\<close>

definition HTTPRequest ::
  "('v \<Rightarrow> 'v error + string) \<Rightarrow> 'v jsonRequest \<Rightarrow> URL
     \<Rightarrow> ('v error, http_Request) result \<times> 'v jsonRequest" where
  "HTTPRequest Encode request baseURL =
     (case Parse (TrimLeft (path request) ''/'') of
        None \<Rightarrow> (Panics NilPointerDereference, request)
      | Some requestedURL \<Rightarrow>
          let resolved = ResolveReference baseURL requestedURL;
              request = request\<lparr>URL := Some resolved\<rparr>
          in
            (case (case body request of None \<Rightarrow> Inr [] | Some b \<Rightarrow> Encode (Value b)) of
               Inl err \<Rightarrow> (Fails err, request)
             | Inr buf \<Rightarrow>
                 (case NewRequest (method request) (URL_String resolved) buf of
                    Inl err \<Rightarrow> (Fails err, request)
                  | Inr req \<Rightarrow>
                      let h = addHeaders (Request_Header req) (headers request);
                          h = Header_Set h ''Content-Type'' ''application/json'';
                          h = Header_Set h ''Accept'' ''application/json''
                      in (Returns (req\<lparr>Request_Header := h\<rparr>), request))))"

text \<open>
  The default error of \<^verbatim>\<open>OnHTTPResponse\<close>,
  \<^verbatim>\<open>fmt.Errorf("request %s %s as JSON returned status %d", method, URL, StatusCode)\<close>.
  \<^verbatim>\<open>%s\<close> prints a \<^verbatim>\<open>*url.URL\<close> through its \<^verbatim>\<open>String\<close> method and a \<^verbatim>\<open>nil\<close> one as
  \<^verbatim>\<open><nil>\<close>.
\<close>

definition statusErrorf :: "string \<Rightarrow> URL option \<Rightarrow> int \<Rightarrow> 'v error" where
  "statusErrorf m u code =
     ErrorString (''request '' @ m @ '' ''
        @ (case u of None \<Rightarrow> ''<nil>'' | Some url \<Rightarrow> URL_String url)
        @ '' as JSON returned status '' @ itoa code)"

text \<open>
  \<^verbatim>\<open>OnHTTPResponse\<close>. \<open>Decode b v\<close> is \<^verbatim>\<open>json.NewDecoder(res.Body).Decode\<close> on a body
  \<open>b\<close> and a target whose value is \<open>v\<close>: the error and the value the target has after
  the call. The function returns the error together with the list of the targets that
  \<^verbatim>\<open>Decode\<close> was called on, each as the call left it; the list is empty when nothing
  was decoded.
\<close>

definition OnHTTPResponse ::
  "(string \<Rightarrow> 'v \<Rightarrow> 'v error option \<times> 'v) \<Rightarrow> 'v jsonRequest \<Rightarrow> http_Response
     \<Rightarrow> 'v error option \<times> 'v JSON list" where
  "OnHTTPResponse Decode responder res =
     (if StatusCode res < StatusBadRequest then
        (case success responder of
           Some target \<Rightarrow>
             (case Decode (Response_Body res) (Value target) of
                (e, v) \<Rightarrow> (e, [target\<lparr>Value := v\<rparr>]))
         | None \<Rightarrow> (None, []))
      else
        let err = statusErrorf (method responder) (URL responder) (StatusCode res) in
        (case statusErrors responder (StatusCode res) of
           Some e \<Rightarrow> (e, [])
         | None \<Rightarrow>
             (case failure responder of
                None \<Rightarrow> (Some err, [])
              | Some target \<Rightarrow>
                  (case Decode (Response_Body res) (Value target) of
                     (Some e, v) \<Rightarrow> (Some e, [target\<lparr>Value := v\<rparr>])
                   | (None, v) \<Rightarrow>
                       (case Errorable target of
                          Some asError \<Rightarrow> (asError v, [target\<lparr>Value := v\<rparr>])
                        | None \<Rightarrow>
                            if implementsError target
                            then (Some (Custom v), [target\<lparr>Value := v\<rparr>])
                            else (Some err, [target\<lparr>Value := v\<rparr>]))))))"

section \<open>Plain paths\<close>




section \<open>Values used in the examples\<close>

text \<open>
  The test of the repository for a malformed body asks whether the returned error is a
  \<^verbatim>\<open>*json.SyntaxError\<close>: \<^verbatim>\<open>_, ok := err.(*json.SyntaxError)\<close>.
\<close>

definition isSyntaxError :: "'v error option \<Rightarrow> bool" where
  "isSyntaxError err = (case err of Some (SyntaxError _ _) \<Rightarrow> True | _ \<Rightarrow> False)"

text \<open>The base URL of the tests, \<^verbatim>\<open>url.Parse("http://example.com/doc/")\<close>.\<close>

definition requestURL :: URL where
  "requestURL = emptyURL\<lparr>Scheme := ''http'', Host := ''example.com'', Path := ''/doc/''\<rparr>"

text \<open>
  Decoders and an encoder for the examples: one that refuses every body with a given error
  and leaves the target alone, one that accepts every body and stores a given value, and
  an encoder that writes given bytes.
\<close>

definition refusing :: "'v error \<Rightarrow> string \<Rightarrow> 'v \<Rightarrow> 'v error option \<times> 'v" where
  "refusing e b v = (Some e, v)"

definition storing :: "'v \<Rightarrow> string \<Rightarrow> 'v \<Rightarrow> 'v error option \<times> 'v" where
  "storing x b v = (None, x)"

definition writing :: "string \<Rightarrow> 'v \<Rightarrow> 'v error + string" where
  "writing s v = Inr s"

text \<open>The syntax error that \<^verbatim>\<open>encoding/json\<close> reports for the body \<^verbatim>\<open>{[\<close> of the tests.\<close>

definition badJSON :: "'v error" where
  "badJSON = SyntaxError ''invalid character '[' looking for beginning of object key string'' 2"

section \<open>Properties\<close>

text \<open>
  C9. For every \<^verbatim>\<open>Config\<close>, \<^verbatim>\<open>NewConnectionPool\<close> returns a pool (it does not panic)
  whose throttled client holds an empty semaphore; when \<^verbatim>\<open>PoolSize\<close> is less than or
  equal to 0 the semaphore's capacity is the default 8, and when \<^verbatim>\<open>PoolSize\<close> is
  positive the capacity is \<^verbatim>\<open>PoolSize\<close>. The configuration itself is stored unchanged.
\<close>

theorem NewConnectionPool_capacity:
  "\<exists>p. NewConnectionPool config = Returns p
     \<and> pool_Config p = config
     \<and> held (sem (pool_client p)) = 0
     \<and> (PoolSize config \<le> 0 \<longrightarrow> capacity (sem (pool_client p)) = 8)
     \<and> (0 < PoolSize config \<longrightarrow> capacity (sem (pool_client p)) = PoolSize config)"
  by (simp add: NewConnectionPool_def newThrottledHTTPClient_def make_semaphore_def
      DefaultPoolSize_def Let_def)

theorem NewConnectionPool_capacity_witness:
  "(\<exists>p. NewConnectionPool \<lparr>PoolSize = - 3, SkipSSLValidation = False\<rparr> = Returns p
      \<and> capacity (sem (pool_client p)) = 8)
   \<and> (\<exists>p. NewConnectionPool \<lparr>PoolSize = 0, SkipSSLValidation = True\<rparr> = Returns p
      \<and> capacity (sem (pool_client p)) = 8)
   \<and> (\<exists>p. NewConnectionPool \<lparr>PoolSize = 5, SkipSSLValidation = False\<rparr> = Returns p
      \<and> capacity (sem (pool_client p)) = 5)"
  using NewConnectionPool_capacity [of "\<lparr>PoolSize = - 3, SkipSSLValidation = False\<rparr>"]
    NewConnectionPool_capacity [of "\<lparr>PoolSize = 0, SkipSSLValidation = True\<rparr>"]
    NewConnectionPool_capacity [of "\<lparr>PoolSize = 5, SkipSSLValidation = False\<rparr>"]
  by auto

subsection \<open>Response resolution\<close>

text \<open>
  C1. For a response with status code at least 400 whose status code has an error
  registered through \<^verbatim>\<open>StatusError\<close>, \<^verbatim>\<open>OnHTTPResponse\<close> returns exactly the registered
  error (which may be \<^verbatim>\<open>nil\<close>), whatever the body is, whatever the decoder would do with
  it and whether or not a failure target is registered as well; the decoder is not called
  on any target.
\<close>

theorem OnHTTPResponse_registered_error:
  assumes "400 \<le> StatusCode res"
  shows "(statusErrors responder (StatusCode res) = Some e \<longrightarrow>
            OnHTTPResponse Decode responder res = (e, []))
       \<and> OnHTTPResponse Decode (StatusError responder (StatusCode res) e) res = (e, [])
       \<and> OnHTTPResponse Decode (Failure (StatusError responder (StatusCode res) e) target) res
           = (e, [])"
  using assms
  by (simp add: OnHTTPResponse_def StatusBadRequest_def StatusError_def Failure_def)

theorem OnHTTPResponse_registered_error_witness:
  "400 \<le> StatusCode \<lparr>StatusCode = 499, Response_Body = ''{[''\<rparr>
   \<and> statusErrors (StatusError (JSONRequest [] []) 499 (Some (ErrorString ''HTTP 499''))) 499
        = Some (Some (ErrorString ''HTTP 499''))
   \<and> OnHTTPResponse (refusing badJSON)
        (StatusError (JSONRequest [] []) 499 (Some (ErrorString ''HTTP 499'')))
        \<lparr>StatusCode = 499, Response_Body = ''{[''\<rparr>
      = (Some (ErrorString ''HTTP 499'' :: string error), [])
   \<and> OnHTTPResponse (refusing badJSON)
        (Failure (StatusError (JSONRequest [] []) 499 (Some (ErrorString ''HTTP 499'')))
           (Some \<lparr>Value = ''x'', Errorable = None, implementsError = True\<rparr>))
        \<lparr>StatusCode = 499, Response_Body = ''{[''\<rparr>
      = (Some (ErrorString ''HTTP 499''), [])"
  using OnHTTPResponse_registered_error
    [of "\<lparr>StatusCode = 499, Response_Body = ''{[''\<rparr>"
        "StatusError (JSONRequest [] []) 499 (Some (ErrorString ''HTTP 499''))"
        "Some (ErrorString ''HTTP 499'')" "refusing badJSON"
        "Some \<lparr>Value = ''x'', Errorable = None, implementsError = True\<rparr>"]
  by (simp add: StatusError_def Failure_def)

text \<open>
  Helper facts: what \<^verbatim>\<open>OnHTTPResponse\<close> does for a status of at least 400 that has no
  registered error, without and with a failure target; and the receiver that
  \<^verbatim>\<open>HTTPRequest\<close> leaves.
\<close>

lemma OnHTTPResponse_no_failure_target:
  assumes "400 \<le> StatusCode res"
    and "statusErrors responder (StatusCode res) = None"
    and "failure responder = None"
  shows "OnHTTPResponse Decode responder res =
     (Some (statusErrorf (method responder) (URL responder) (StatusCode res)), [])"
  using assms by (simp add: OnHTTPResponse_def StatusBadRequest_def)

lemma OnHTTPResponse_failure_target:
  assumes "400 \<le> StatusCode res"
    and "statusErrors responder (StatusCode res) = None"
    and "failure responder = Some target"
    and "Decode (Response_Body res) (Value target) = (d, v)"
  shows "OnHTTPResponse Decode responder res =
     (case d of
        Some e \<Rightarrow> Some e
      | None \<Rightarrow>
          (case Errorable target of
             Some asError \<Rightarrow> asError v
           | None \<Rightarrow>
               if implementsError target then Some (Custom v)
               else Some (statusErrorf (method responder) (URL responder) (StatusCode res))),
      [target\<lparr>Value := v\<rparr>])"
  using assms
  by (simp add: OnHTTPResponse_def StatusBadRequest_def split: option.splits)

lemma HTTPRequest_receiver:
  assumes "Parse (TrimLeft (path request) ''/'') = Some u"
  shows "snd (HTTPRequest Encode request baseURL)
     = request\<lparr>URL := Some (ResolveReference baseURL u)\<rparr>"
  using assms
  by (simp add: HTTPRequest_def Let_def split: option.splits sum.splits)

lemma HTTPRequest_Panics:
  "fst (HTTPRequest Encode request baseURL) = Panics p
     \<longleftrightarrow> p = NilPointerDereference \<and> Parse (TrimLeft (path request) ''/'') = None"
  by (auto simp add: HTTPRequest_def Let_def split: option.splits sum.splits)

text \<open>
  C5 (as the claim states it, refuted). The request \<^verbatim>\<open>JSONRequest("GET", "/some/path")\<close>
  has no failure target and no registered error. After \<^verbatim>\<open>HTTPRequest\<close> against the base
  URL of the tests, a response with status 404 and the malformed body \<^verbatim>\<open>{[\<close>, which the
  decoder would refuse with a syntax error, gets the default error and not a syntax error:
  the body is not decoded at all.
\<close>

theorem OnHTTPResponse_no_target_no_syntax_error:
  "failure (JSONRequest ''GET'' ''/some/path'' :: string jsonRequest) = None
   \<and> statusErrors (JSONRequest ''GET'' ''/some/path'' :: string jsonRequest) 404 = None
   \<and> isSyntaxError (fst (refusing badJSON ''{['' ''x''))
   \<and> OnHTTPResponse (refusing badJSON)
        (snd (HTTPRequest (writing [])
           (JSONRequest ''GET'' ''/some/path'' :: string jsonRequest) requestURL))
        \<lparr>StatusCode = 404, Response_Body = ''{[''\<rparr>
      = (Some (ErrorString
           ''request GET http://example.com/doc/some/path as JSON returned status 404''), [])
   \<and> \<not> isSyntaxError (fst (OnHTTPResponse (refusing badJSON)
        (snd (HTTPRequest (writing [])
           (JSONRequest ''GET'' ''/some/path'' :: string jsonRequest) requestURL))
        \<lparr>StatusCode = 404, Response_Body = ''{[''\<rparr>))"
proof -
  have p: "Parse (TrimLeft ''/some/path'' ''/'') = Some (emptyURL\<lparr>Path := ''some/path''\<rparr>)"
    by code_simp
  have s: "URL_String (ResolveReference requestURL (emptyURL\<lparr>Path := ''some/path''\<rparr>))
      = ''http://example.com/doc/some/path''"
    by code_simp
  have i: "itoa 404 = ''404''"
    by code_simp
  have r: "snd (HTTPRequest (writing []) (JSONRequest ''GET'' ''/some/path'' :: string jsonRequest) requestURL)
      = (JSONRequest ''GET'' ''/some/path'')
          \<lparr>URL := Some (ResolveReference requestURL (emptyURL\<lparr>Path := ''some/path''\<rparr>))\<rparr>"
    by (rule HTTPRequest_receiver) (simp add: JSONRequest_def p)
  show ?thesis
    unfolding r
    by (simp add: OnHTTPResponse_no_failure_target statusErrorf_def s i JSONRequest_def
        isSyntaxError_def refusing_def badJSON_def)
qed

text \<open>
  C5 (amended). For a response with status code at least 400 and no error registered for
  its status code: when a failure target is registered and the decoder refuses the body
  with a JSON syntax error, \<^verbatim>\<open>OnHTTPResponse\<close> returns that syntax error itself, not
  wrapped, after the one decode attempt on the failure target; when no failure target is
  registered, nothing is decoded and the default error is returned, which is not a syntax
  error.
\<close>

theorem OnHTTPResponse_syntax_error:
  assumes "400 \<le> StatusCode res"
    and "statusErrors responder (StatusCode res) = None"
  shows "(failure responder = Some target
            \<and> Decode (Response_Body res) (Value target) = (Some (SyntaxError msg offset), v)
          \<longrightarrow> OnHTTPResponse Decode responder res
                = (Some (SyntaxError msg offset), [target\<lparr>Value := v\<rparr>])
              \<and> isSyntaxError (fst (OnHTTPResponse Decode responder res)))
       \<and> (failure responder = None
          \<longrightarrow> OnHTTPResponse Decode responder res
                = (Some (statusErrorf (method responder) (URL responder) (StatusCode res)), [])
              \<and> \<not> isSyntaxError (fst (OnHTTPResponse Decode responder res)))"
  using assms
  by (simp add: OnHTTPResponse_no_failure_target OnHTTPResponse_failure_target
      isSyntaxError_def statusErrorf_def)

theorem OnHTTPResponse_syntax_error_witness:
  "400 \<le> StatusCode \<lparr>StatusCode = 404, Response_Body = ''{[''\<rparr>
   \<and> statusErrors (Response (JSONRequest [] [])
        (Some \<lparr>Value = ''x'', Errorable = None, implementsError = False\<rparr>)) 404 = None
   \<and> failure (Response (JSONRequest [] [])
        (Some \<lparr>Value = ''x'', Errorable = None, implementsError = False\<rparr>))
      = Some \<lparr>Value = ''x'', Errorable = None, implementsError = False\<rparr>
   \<and> refusing badJSON ''{['' ''x''
      = (Some (SyntaxError
           ''invalid character '[' looking for beginning of object key string'' 2), ''x'')
   \<and> isSyntaxError (fst (OnHTTPResponse (refusing badJSON)
        (Response (JSONRequest [] [])
           (Some \<lparr>Value = ''x'', Errorable = None, implementsError = False\<rparr>))
        \<lparr>StatusCode = 404, Response_Body = ''{[''\<rparr>))
   \<and> failure (JSONRequest [] [] :: string jsonRequest) = None
   \<and> fst (OnHTTPResponse (refusing badJSON)
        (JSONRequest [] [] :: string jsonRequest)
        \<lparr>StatusCode = 404, Response_Body = ''{[''\<rparr>)
      = Some (ErrorString ''request  <nil> as JSON returned status 404'')
   \<and> \<not> isSyntaxError (fst (OnHTTPResponse (refusing badJSON)
        (JSONRequest [] [] :: string jsonRequest)
        \<lparr>StatusCode = 404, Response_Body = ''{[''\<rparr>))"
proof -
  let ?res = "\<lparr>StatusCode = 404, Response_Body = ''{[''\<rparr>"
  let ?t = "\<lparr>Value = ''x'', Errorable = None, implementsError = False\<rparr> :: string JSON"
  have a: "400 \<le> StatusCode ?res" by simp
  have b: "statusErrors (Response (JSONRequest [] []) (Some ?t)) (StatusCode ?res) = None"
    by (simp add: Response_def JSONRequest_def)
  have c: "failure (Response (JSONRequest [] []) (Some ?t)) = Some ?t"
    by (simp add: Response_def JSONRequest_def)
  have d: "refusing badJSON (Response_Body ?res) (Value ?t)
      = (Some (SyntaxError
           ''invalid character '[' looking for beginning of object key string'' 2), ''x'')"
    by (simp add: refusing_def badJSON_def)
  have b': "statusErrors (JSONRequest [] [] :: string jsonRequest) (StatusCode ?res) = None"
    by (simp add: JSONRequest_def)
  have c': "failure (JSONRequest [] [] :: string jsonRequest) = None"
    by (simp add: JSONRequest_def)
  from OnHTTPResponse_syntax_error [OF a b, of ?t "refusing badJSON"] c d
  have 1: "isSyntaxError (fst (OnHTTPResponse (refusing badJSON)
        (Response (JSONRequest [] []) (Some ?t)) ?res))"
    by blast
  from OnHTTPResponse_syntax_error [OF a b', of ?t "refusing badJSON"] c'
  have 2: "\<not> isSyntaxError (fst (OnHTTPResponse (refusing badJSON)
        (JSONRequest [] [] :: string jsonRequest) ?res))"
    and 3: "OnHTTPResponse (refusing badJSON) (JSONRequest [] [] :: string jsonRequest) ?res
      = (Some (statusErrorf (method (JSONRequest [] [] :: string jsonRequest))
           (URL (JSONRequest [] [] :: string jsonRequest)) (StatusCode ?res)), [])"
    by blast+
  have i: "itoa 404 = ''404''"
    by code_simp
  from 3 have 4: "fst (OnHTTPResponse (refusing badJSON)
        (JSONRequest [] [] :: string jsonRequest) ?res)
      = Some (ErrorString ''request  <nil> as JSON returned status 404'')"
    by (simp add: statusErrorf_def JSONRequest_def i)
  from a b c d c' 1 2 4 show ?thesis by simp
qed

text \<open>
  C6. For a response with status code at least 400, no error registered for its status
  code and a registered failure target, \<^verbatim>\<open>OnHTTPResponse\<close> decodes the body into the
  failure target, once. If the decoder returns an error, that error is returned as it is.
  If it succeeds and the target implements \<^verbatim>\<open>Errorable\<close>, the result of \<^verbatim>\<open>AsError()\<close> on
  the decoded target is returned; otherwise, if the target implements \<^verbatim>\<open>error\<close>, the
  decoded target itself is returned; otherwise the default error is returned.
\<close>

theorem OnHTTPResponse_failure_precedence:
  assumes "400 \<le> StatusCode res"
    and "statusErrors responder (StatusCode res) = None"
    and "failure responder = Some target"
    and "Decode (Response_Body res) (Value target) = (d, v)"
  shows "snd (OnHTTPResponse Decode responder res) = [target\<lparr>Value := v\<rparr>]
       \<and> (\<forall>e. d = Some e \<longrightarrow> fst (OnHTTPResponse Decode responder res) = Some e)
       \<and> (\<forall>asError. d = None \<and> Errorable target = Some asError \<longrightarrow>
             fst (OnHTTPResponse Decode responder res) = asError v)
       \<and> (d = None \<and> Errorable target = None \<and> implementsError target \<longrightarrow>
             fst (OnHTTPResponse Decode responder res) = Some (Custom v))
       \<and> (d = None \<and> Errorable target = None \<and> \<not> implementsError target \<longrightarrow>
             fst (OnHTTPResponse Decode responder res)
               = Some (statusErrorf (method responder) (URL responder) (StatusCode res)))"
  using assms by (simp add: OnHTTPResponse_failure_target)

theorem OnHTTPResponse_failure_precedence_witness:
  "fst (OnHTTPResponse (refusing badJSON)
          (Failure (JSONRequest ''GET'' [])
             (Some \<lparr>Value = [], Errorable = Some (\<lambda>v. Some (ErrorString v)),
                     implementsError = True\<rparr>))
          \<lparr>StatusCode = 500, Response_Body = ''{[''\<rparr>)
     = Some (SyntaxError
         ''invalid character '[' looking for beginning of object key string'' 2)
   \<and> fst (OnHTTPResponse (storing ''Error Message'')
          (Failure (JSONRequest ''GET'' [])
             (Some \<lparr>Value = [], Errorable = Some (\<lambda>v. Some (ErrorString v)),
                     implementsError = True\<rparr>))
          \<lparr>StatusCode = 500, Response_Body = ''{\"Message\":\"Error Message\"}''\<rparr>)
     = Some (ErrorString ''Error Message'')
   \<and> fst (OnHTTPResponse (storing ''Error Message'')
          (Failure (JSONRequest ''GET'' [])
             (Some \<lparr>Value = [], Errorable = None, implementsError = True\<rparr>))
          \<lparr>StatusCode = 500, Response_Body = ''{\"Message\":\"Error Message\"}''\<rparr>)
     = Some (Custom ''Error Message'')
   \<and> fst (OnHTTPResponse (storing ''Error Message'')
          (Failure (JSONRequest ''GET'' [])
             (Some \<lparr>Value = [], Errorable = None, implementsError = False\<rparr>))
          \<lparr>StatusCode = 500, Response_Body = ''{\"Message\":\"Error Message\"}''\<rparr>)
     = Some (ErrorString ''request GET <nil> as JSON returned status 500'')"
proof -
  let ?bad = "\<lparr>StatusCode = 500, Response_Body = ''{[''\<rparr>"
  let ?res = "\<lparr>StatusCode = 500, Response_Body = ''{\"Message\":\"Error Message\"}''\<rparr>"
  let ?both = "\<lparr>Value = [], Errorable = Some (\<lambda>v. Some (ErrorString v)),
                 implementsError = True\<rparr> :: string JSON"
  let ?err = "\<lparr>Value = [], Errorable = None, implementsError = True\<rparr> :: string JSON"
  let ?plain = "\<lparr>Value = [], Errorable = None, implementsError = False\<rparr> :: string JSON"
  have i: "itoa 500 = ''500''"
    by code_simp
  have 1: "fst (OnHTTPResponse (refusing badJSON) (Failure (JSONRequest ''GET'' []) (Some ?both)) ?bad)
      = Some (SyntaxError
          ''invalid character '[' looking for beginning of object key string'' 2)"
    using OnHTTPResponse_failure_precedence
      [of ?bad "Failure (JSONRequest ''GET'' []) (Some ?both)" ?both "refusing badJSON"
          "Some badJSON" "[]"]
    by (simp add: Failure_def JSONRequest_def refusing_def badJSON_def)
  have 2: "fst (OnHTTPResponse (storing ''Error Message'')
        (Failure (JSONRequest ''GET'' []) (Some ?both)) ?res)
      = Some (ErrorString ''Error Message'')"
    using OnHTTPResponse_failure_precedence
      [of ?res "Failure (JSONRequest ''GET'' []) (Some ?both)" ?both
          "storing ''Error Message''" None "''Error Message''"]
    by (simp add: Failure_def JSONRequest_def storing_def)
  have 3: "fst (OnHTTPResponse (storing ''Error Message'')
        (Failure (JSONRequest ''GET'' []) (Some ?err)) ?res)
      = Some (Custom ''Error Message'')"
    using OnHTTPResponse_failure_precedence
      [of ?res "Failure (JSONRequest ''GET'' []) (Some ?err)" ?err
          "storing ''Error Message''" None "''Error Message''"]
    by (simp add: Failure_def JSONRequest_def storing_def)
  have 4: "fst (OnHTTPResponse (storing ''Error Message'')
        (Failure (JSONRequest ''GET'' []) (Some ?plain)) ?res)
      = Some (ErrorString ''request GET <nil> as JSON returned status 500'')"
    using OnHTTPResponse_failure_precedence
      [of ?res "Failure (JSONRequest ''GET'' []) (Some ?plain)" ?plain
          "storing ''Error Message''" None "''Error Message''"]
    by (simp add: Failure_def JSONRequest_def storing_def statusErrorf_def i)
  from 1 2 3 4 show ?thesis by simp
qed

text \<open>
  C10. \<^verbatim>\<open>HTTPRequest\<close> does not return for every path. When \<^verbatim>\<open>url.Parse\<close> fails on the
  path without its leading slashes, the error is dropped, \<^verbatim>\<open>ResolveReference\<close> is called
  on the \<^verbatim>\<open>nil\<close> URL and the call panics with a nil pointer dereference, leaving the
  receiver as it was; no error is returned. With a base URL that is not \<^verbatim>\<open>nil\<close> this is
  the only way in which \<^verbatim>\<open>HTTPRequest\<close> itself panics. Such paths exist: \<^verbatim>\<open>:/\<close> (no
  scheme before the colon) and \<^verbatim>\<open>/%zz\<close> (a malformed escape) are two.
\<close>

theorem HTTPRequest_panics_on_unparsable_path:
  "(Parse (TrimLeft (path request) ''/'') = None \<longrightarrow>
      HTTPRequest Encode request baseURL = (Panics NilPointerDereference, request))
   \<and> (fst (HTTPRequest Encode request baseURL) = Panics p \<longrightarrow>
      Parse (TrimLeft (path request) ''/'') = None)
   \<and> HTTPRequest Encode (JSONRequest m '':/'') baseURL
      = (Panics NilPointerDereference, JSONRequest m '':/'')
   \<and> HTTPRequest Encode (JSONRequest m ''/%zz'') baseURL
      = (Panics NilPointerDereference, JSONRequest m ''/%zz'')"
proof -
  have 1: "Parse (TrimLeft '':/'' ''/'') = None"
    by code_simp
  have 2: "Parse (TrimLeft ''/%zz'' ''/'') = None"
    by code_simp
  show ?thesis
    by (simp add: HTTPRequest_Panics) (simp add: HTTPRequest_def JSONRequest_def 1 2)
qed

theorem HTTPRequest_panics_on_unparsable_path_witness:
  "Parse (TrimLeft (path (JSONRequest ''GET'' ''/%zz'' :: string jsonRequest)) ''/'') = None
   \<and> fst (HTTPRequest (writing []) (JSONRequest ''GET'' ''/%zz'' :: string jsonRequest) requestURL)
      = Panics NilPointerDereference"
proof -
  have "Parse (TrimLeft ''/%zz'' ''/'') = None"
    by code_simp
  then have "Parse (TrimLeft (path (JSONRequest ''GET'' ''/%zz'' :: string jsonRequest)) ''/'') = None"
    by (simp add: JSONRequest_def)
  with HTTPRequest_panics_on_unparsable_path
    [of "JSONRequest ''GET'' ''/%zz'' :: string jsonRequest" "writing []" requestURL]
  show ?thesis by simp
qed

text \<open>
  C7. Take a request for which \<^verbatim>\<open>HTTPRequest\<close> has returned, and a response with status
  code at least 400 for which no error is registered and no error comes from a failure
  target: either no failure target is registered, or the body decodes into the failure
  target without error and the target implements neither \<^verbatim>\<open>Errorable\<close> nor \<^verbatim>\<open>error\<close>.
  Then the error that \<^verbatim>\<open>OnHTTPResponse\<close> returns is the error with exactly the message
  \<^verbatim>\<open>request <METHOD> <URL> as JSON returned status <CODE>\<close>: the method is the method the
  builder was given, the URL is the string of the resolved URL (the base URL resolved
  against the path without its leading slashes, the very string \<^verbatim>\<open>http.NewRequest\<close> was
  given), and the code is the status code in decimal.
\<close>

theorem OnHTTPResponse_default_error:
  assumes "400 \<le> StatusCode res"
    and "HTTPRequest Encode request baseURL = (Returns req, responder)"
    and "statusErrors request (StatusCode res) = None"
    and "failure request = None
         \<or> (\<exists>target v. failure request = Some target
               \<and> Decode (Response_Body res) (Value target) = (None, v)
               \<and> Errorable target = None \<and> \<not> implementsError target)"
  shows "\<exists>u u'. Parse (TrimLeft (path request) ''/'') = Some u
           \<and> URL responder = Some (ResolveReference baseURL u)
           \<and> Parse (URL_String (ResolveReference baseURL u)) = Some u'
           \<and> Request_URL req = u'\<lparr>Host := removeEmptyPort (Host u')\<rparr>
           \<and> fst (OnHTTPResponse Decode responder res)
               = Some (ErrorString (''request '' @ method request @ '' ''
                    @ URL_String (ResolveReference baseURL u)
                    @ '' as JSON returned status '' @ itoa (StatusCode res)))"
proof -
  from assms(2) obtain u where u: "Parse (TrimLeft (path request) ''/'') = Some u"
    by (cases "Parse (TrimLeft (path request) ''/'')") (simp_all add: HTTPRequest_def)
  from assms(2) have responder:
    "responder = request\<lparr>URL := Some (ResolveReference baseURL u)\<rparr>"
    using HTTPRequest_receiver [OF u, of Encode baseURL] by simp
  from assms(2) u obtain u' where u':
    "Parse (URL_String (ResolveReference baseURL u)) = Some u'"
    "Request_URL req = u'\<lparr>Host := removeEmptyPort (Host u')\<rparr>"
    by (auto simp add: HTTPRequest_def NewRequest_def Let_def
        split: option.splits sum.splits if_splits)
  have "fst (OnHTTPResponse Decode responder res)
      = Some (statusErrorf (method responder) (URL responder) (StatusCode res))"
    using assms(4)
  proof
    assume "failure request = None"
    then show ?thesis
      using assms(1,3)
      by (simp add: responder OnHTTPResponse_no_failure_target)
  next
    assume "\<exists>target v. failure request = Some target
        \<and> Decode (Response_Body res) (Value target) = (None, v)
        \<and> Errorable target = None \<and> \<not> implementsError target"
    then obtain target v where "failure request = Some target"
      and "Decode (Response_Body res) (Value target) = (None, v)"
      and "Errorable target = None" and "\<not> implementsError target"
      by blast
    then show ?thesis
      using assms(1,3)
      by (simp add: responder
          OnHTTPResponse_failure_target [where target = target and d = None and v = v])
  qed
  then show ?thesis
    using u u' by (simp add: responder statusErrorf_def)
qed

theorem OnHTTPResponse_default_error_witness:
  "400 \<le> StatusCode \<lparr>StatusCode = 500, Response_Body = []\<rparr>
   \<and> (case fst (HTTPRequest (writing [])
                 (JSONRequest ''OPTIONS'' ''/api/v1/to/madness'' :: string jsonRequest)
                 (emptyURL\<lparr>Scheme := ''http'', Host := ''no.such.domain.xxx''\<rparr>)) of
         Returns req \<Rightarrow> True | _ \<Rightarrow> False)
   \<and> fst (OnHTTPResponse (refusing badJSON)
        (snd (HTTPRequest (writing [])
                (JSONRequest ''OPTIONS'' ''/api/v1/to/madness'' :: string jsonRequest)
                (emptyURL\<lparr>Scheme := ''http'', Host := ''no.such.domain.xxx''\<rparr>)))
        \<lparr>StatusCode = 500, Response_Body = []\<rparr>)
      = Some (ErrorString
          ''request OPTIONS http://no.such.domain.xxx/api/v1/to/madness as JSON returned status 500'')"
proof -
  let ?request = "JSONRequest ''OPTIONS'' ''/api/v1/to/madness'' :: string jsonRequest"
  let ?base = "emptyURL\<lparr>Scheme := ''http'', Host := ''no.such.domain.xxx''\<rparr>"
  let ?res = "\<lparr>StatusCode = 500, Response_Body = []\<rparr>"
  let ?out = "HTTPRequest (writing []) ?request ?base"
  have returns: "(case fst ?out of Returns req \<Rightarrow> True | _ \<Rightarrow> False)"
    by code_simp
  then obtain req where "fst ?out = Returns req"
    by (cases "fst ?out") simp_all
  then have out: "?out = (Returns req, snd ?out)"
    by (simp add: prod_eq_iff)
  have p: "Parse (TrimLeft ''/api/v1/to/madness'' ''/'')
      = Some (emptyURL\<lparr>Path := ''api/v1/to/madness''\<rparr>)"
    by code_simp
  have s: "URL_String (ResolveReference ?base (emptyURL\<lparr>Path := ''api/v1/to/madness''\<rparr>))
      = ''http://no.such.domain.xxx/api/v1/to/madness''"
    by code_simp
  have i: "itoa 500 = ''500''"
    by code_simp
  have a: "400 \<le> StatusCode ?res" by simp
  have b: "statusErrors ?request (StatusCode ?res) = None"
    by (simp add: JSONRequest_def)
  have c: "failure ?request = None
      \<or> (\<exists>target v. failure ?request = Some target
            \<and> refusing badJSON (Response_Body ?res) (Value target) = (None, v)
            \<and> Errorable target = None \<and> \<not> implementsError target)"
    by (simp add: JSONRequest_def)
  have "\<exists>u u'. Parse (TrimLeft (path ?request) ''/'') = Some u
           \<and> URL (snd ?out) = Some (ResolveReference ?base u)
           \<and> Parse (URL_String (ResolveReference ?base u)) = Some u'
           \<and> Request_URL req = u'\<lparr>Host := removeEmptyPort (Host u')\<rparr>
           \<and> fst (OnHTTPResponse (refusing badJSON) (snd ?out) ?res)
               = Some (ErrorString (''request '' @ method ?request @ '' ''
                    @ URL_String (ResolveReference ?base u)
                    @ '' as JSON returned status '' @ itoa (StatusCode ?res)))"
    using a out b c
    by (rule OnHTTPResponse_default_error
        [where res = "?res" and Encode = "writing []" and request = "?request"
           and baseURL = "?base" and req = req and responder = "snd ?out"
           and Decode = "refusing badJSON"])
  then have "fst (OnHTTPResponse (refusing badJSON) (snd ?out) ?res)
      = Some (ErrorString
          ''request OPTIONS http://no.such.domain.xxx/api/v1/to/madness as JSON returned status 500'')"
    by (auto simp add: JSONRequest_def p s i)
  with returns show ?thesis by simp
qed

subsection \<open>Request resolution\<close>





















lemma HTTPRequest_Returns:
  assumes "fst (HTTPRequest Encode request baseURL) = Returns req"
  shows "\<exists>u u'. Parse (TrimLeft (path request) ''/'') = Some u
           \<and> Parse (URL_String (ResolveReference baseURL u)) = Some u'
           \<and> Request_URL req = u'\<lparr>Host := removeEmptyPort (Host u')\<rparr>"
  using assms
  by (auto simp add: HTTPRequest_def NewRequest_def Let_def
      split: option.splits sum.splits if_splits)






text \<open>
  C4 (as the claim states it, refuted). For the base URL \<^verbatim>\<open>http://example.com/doc/\<close> and
  the requested path \<^verbatim>\<open>/some/path\<close>, the path of the request that \<^verbatim>\<open>HTTPRequest\<close> returns
  and the path of the URL it stores are \<^verbatim>\<open>/doc/some/path\<close>, not \<^verbatim>\<open>/some/path\<close>: the path of
  the base URL is not discarded.
\<close>

theorem HTTPRequest_keeps_base_path:
  "(case fst (HTTPRequest (writing [])
            (JSONRequest ''GET'' ''/some/path'' :: string jsonRequest) requestURL) of
      Returns req \<Rightarrow>
        Path (Request_URL req) = ''/doc/some/path'' \<and> Path (Request_URL req) \<noteq> ''/some/path''
    | _ \<Rightarrow> False)
   \<and> map_option Path (URL (snd (HTTPRequest (writing [])
          (JSONRequest ''GET'' ''/some/path'' :: string jsonRequest) requestURL)))
       = Some ''/doc/some/path''
   \<and> map_option Path (URL (snd (HTTPRequest (writing [])
          (JSONRequest ''GET'' ''/some/path'' :: string jsonRequest) requestURL)))
       \<noteq> Some ''/some/path''"
  by code_simp

text \<open>
  C4 (amended). For the base URL \<^verbatim>\<open>http://example.com/doc/\<close> and the requested path
  \<^verbatim>\<open>/some/path\<close>, the final resolved request path equals \<^verbatim>\<open>/doc/some/path\<close>: the leading
  slash of the requested path is stripped before resolution, so the path of the base URL
  is kept. This holds for the URL that \<^verbatim>\<open>HTTPRequest\<close> stores and for the URL of every
  request it returns, whatever the method, headers and body of the request are.
\<close>

theorem HTTPRequest_some_path:
  assumes "path request = ''/some/path''"
  shows "map_option Path (URL (snd (HTTPRequest Encode request requestURL)))
       = Some ''/doc/some/path''
     \<and> (\<forall>req. fst (HTTPRequest Encode request requestURL) = Returns req \<longrightarrow>
           Path (Request_URL req) = ''/doc/some/path'')"
proof (intro conjI allI impI)
  have p: "Parse (TrimLeft ''/some/path'' ''/'') = Some (emptyURL\<lparr>Path := ''some/path''\<rparr>)"
    by code_simp
  have s: "Path (ResolveReference requestURL (emptyURL\<lparr>Path := ''some/path''\<rparr>))
      = ''/doc/some/path''"
    by code_simp
  show "map_option Path (URL (snd (HTTPRequest Encode request requestURL)))
       = Some ''/doc/some/path''"
    by (simp add: HTTPRequest_receiver [where u = "emptyURL\<lparr>Path := ''some/path''\<rparr>"]
        assms p s)
  fix req
  assume "fst (HTTPRequest Encode request requestURL) = Returns req"
  from HTTPRequest_Returns [OF this] obtain u'
    where u': "Parse (URL_String
        (ResolveReference requestURL (emptyURL\<lparr>Path := ''some/path''\<rparr>))) = Some u'"
      and req: "Request_URL req = u'\<lparr>Host := removeEmptyPort (Host u')\<rparr>"
    by (auto simp add: assms p)
  have "map_option Path (Parse (URL_String
      (ResolveReference requestURL (emptyURL\<lparr>Path := ''some/path''\<rparr>))))
      = Some ''/doc/some/path''"
    by code_simp
  with u' req show "Path (Request_URL req) = ''/doc/some/path''"
    by simp
qed

theorem HTTPRequest_some_path_witness:
  "path (JSONRequest ''GET'' ''/some/path'' :: string jsonRequest) = ''/some/path''
   \<and> map_option Path (URL (snd (HTTPRequest (writing [])
          (JSONRequest ''GET'' ''/some/path'' :: string jsonRequest) requestURL)))
       = Some ''/doc/some/path''
   \<and> (case fst (HTTPRequest (writing [])
                 (JSONRequest ''GET'' ''/some/path'' :: string jsonRequest) requestURL) of
         Returns req \<Rightarrow> Path (Request_URL req) = ''/doc/some/path''
       | _ \<Rightarrow> False)"
proof -
  let ?R = "JSONRequest ''GET'' ''/some/path'' :: string jsonRequest"
  have path: "path ?R = ''/some/path''"
    by (simp add: JSONRequest_def)
  have "(case fst (HTTPRequest (writing []) ?R requestURL) of Returns req \<Rightarrow> True | _ \<Rightarrow> False)"
    by code_simp
  then obtain req where req: "fst (HTTPRequest (writing []) ?R requestURL) = Returns req"
    by (cases "fst (HTTPRequest (writing []) ?R requestURL)") simp_all
  from HTTPRequest_some_path [OF path, of "writing []"] req path show ?thesis
    by simp
qed

subsection \<open>Headers\<close>

text \<open>
  Helper facts about the library model: the canonical form of a header name is a fixed
  point of the canonicalisation, and \<^verbatim>\<open>Add\<close> and \<^verbatim>\<open>Set\<close> act on the values of a name as
  they do on a Go map.
\<close>

lemma lower_to_upper_code:
  fixes n :: nat
  assumes "97 \<le> n" and "n \<le> 122"
  shows "(n - 32) mod 256 = n - 32" "65 \<le> n - 32" "n - 32 \<le> 90" "n - 32 \<noteq> 45"
  using assms by simp_all

lemma upper_to_lower_code:
  fixes n :: nat
  assumes "65 \<le> n" and "n \<le> 90"
  shows "(n + 32) mod 256 = n + 32" "97 \<le> n + 32" "n + 32 \<le> 122" "n + 32 \<noteq> 45"
  using assms by simp_all

lemma isLower_code: "isLower c \<longleftrightarrow> 97 \<le> (of_char c :: nat) \<and> (of_char c :: nat) \<le> 122"
  by (simp add: isLower_def less_eq_char_def)

lemma isUpper_code: "isUpper c \<longleftrightarrow> 65 \<le> (of_char c :: nat) \<and> (of_char c :: nat) \<le> 90"
  by (simp add: isUpper_def less_eq_char_def)

lemma toUpper_isUpper:
  assumes "isLower c"
  shows "isUpper (toUpper c)" "\<not> isLower (toUpper c)" "toUpper c \<noteq> CHR ''-''"
proof -
  from assms have c: "97 \<le> (of_char c :: nat)" "(of_char c :: nat) \<le> 122"
    by (simp_all add: isLower_code)
  note facts = lower_to_upper_code [OF c]
  have n: "(of_char (toUpper c) :: nat) = of_char c - 32"
    using assms facts(1) by (simp add: toUpper_def)
  show "isUpper (toUpper c)"
    using facts(2,3) by (simp add: isUpper_code n)
  show "\<not> isLower (toUpper c)"
    using facts(3) by (simp add: isLower_code n)
  show "toUpper c \<noteq> CHR ''-''"
  proof
    assume "toUpper c = CHR ''-''"
    then have "(of_char (toUpper c) :: nat) = of_char CHR ''-''"
      by simp
    with facts(4) show False
      by (simp add: n)
  qed
qed

lemma toLower_isLower:
  assumes "isUpper c"
  shows "isLower (toLower c)" "\<not> isUpper (toLower c)" "toLower c \<noteq> CHR ''-''"
proof -
  from assms have c: "65 \<le> (of_char c :: nat)" "(of_char c :: nat) \<le> 90"
    by (simp_all add: isUpper_code)
  note facts = upper_to_lower_code [OF c]
  have n: "(of_char (toLower c) :: nat) = of_char c + 32"
    using assms facts(1) by (simp add: toLower_def)
  show "isLower (toLower c)"
    using facts(2,3) by (simp add: isLower_code n)
  show "\<not> isUpper (toLower c)"
    using facts(2) by (simp add: isUpper_code n)
  show "toLower c \<noteq> CHR ''-''"
  proof
    assume "toLower c = CHR ''-''"
    then have "(of_char (toLower c) :: nat) = of_char CHR ''-''"
      by simp
    with facts(4) show False
      by (simp add: n)
  qed
qed


lemma canonicalMIMEHeaderKey_idem:
  "canonicalMIMEHeaderKey upper (canonicalMIMEHeaderKey upper s) = canonicalMIMEHeaderKey upper s"
proof (induction s arbitrary: upper)
  case Nil
  show ?case by simp
next
  case (Cons c s)
  define c' where "c' = (if upper \<and> isLower c then toUpper c
                else if \<not> upper \<and> isUpper c then toLower c
                else c)"
  have stable: "(if upper \<and> isLower c' then toUpper c'
              else if \<not> upper \<and> isUpper c' then toLower c'
              else c') = c'"
    using toUpper_isUpper(2) [of c] toLower_isLower(2) [of c]
    by (auto simp add: c'_def)
  have "canonicalMIMEHeaderKey upper (c # s) = c' # canonicalMIMEHeaderKey (c' = CHR ''-'') s"
    by (simp add: c'_def Let_def)
  then show ?case
    using Cons.IH [of "c' = CHR ''-''"] stable by (simp add: Let_def)
qed

lemma canonicalMIMEHeaderKey_valid:
  "list_all validHeaderFieldByte s \<Longrightarrow>
     list_all validHeaderFieldByte (canonicalMIMEHeaderKey upper s)"
proof (induction s arbitrary: upper)
  case Nil
  show ?case by simp
next
  case (Cons c s)
  have "validHeaderFieldByte (toUpper c)" if "isLower c"
    using toUpper_isUpper(1) [OF that] by (simp add: validHeaderFieldByte_def)
  moreover have "validHeaderFieldByte (toLower c)" if "isUpper c"
    using toLower_isLower(1) [OF that] by (simp add: validHeaderFieldByte_def)
  ultimately show ?case
    using Cons by (simp add: Let_def)
qed

lemma CanonicalMIMEHeaderKey_idem:
  "CanonicalMIMEHeaderKey (CanonicalMIMEHeaderKey s) = CanonicalMIMEHeaderKey s"
  by (simp add: CanonicalMIMEHeaderKey_def canonicalMIMEHeaderKey_idem
      canonicalMIMEHeaderKey_valid)

lemma map_fst_replace:
  "map fst (map (\<lambda>p. if fst p = key then (key, vs) else p) h) = map fst h"
  by (induction h) auto

lemma map_of_replace:
  "map_of (map (\<lambda>p. if fst p = key then (key, vs) else p) h) k
     = (if k = key \<and> key \<in> fst ` set h then Some vs else map_of h k)"
proof (induction h)
  case Nil
  show ?case by simp
next
  case (Cons p h)
  then show ?case
    by (cases p) (force simp add: image_iff)
qed

lemma map_of_Header_store:
  "map_of (Header_store h key vs) = (map_of h)(key \<mapsto> vs)"
proof (cases "key \<in> fst ` set h")
  case False
  then have "map_of h key = None"
    by (simp add: map_of_eq_None_iff)
  with False show ?thesis
    by (auto simp add: Header_store_def map_add_def fun_eq_iff split: option.splits)
next
  case True
  then show ?thesis
    by (simp add: Header_store_def fun_eq_iff map_of_replace)
qed

lemma keys_Header_store:
  "set (map fst (Header_store h key vs)) = insert key (set (map fst h))"
proof (cases "key \<in> fst ` set h")
  case True
  then show ?thesis
    by (simp only: Header_store_def if_True map_fst_replace) auto
next
  case False
  then show ?thesis
    by (simp add: Header_store_def)
qed

lemma distinct_Header_store:
  assumes "distinct (map fst h)"
  shows "distinct (map fst (Header_store h key vs))"
proof (cases "key \<in> fst ` set h")
  case True
  then show ?thesis
    using assms by (simp only: Header_store_def if_True map_fst_replace)
next
  case False
  then show ?thesis
    using assms by (simp add: Header_store_def)
qed

lemma Header_values_store:
  "Header_values (Header_store h key vs) k = (if k = key then vs else Header_values h k)"
  by (simp add: Header_values_def map_of_Header_store)

lemma Header_values_Add:
  "Header_values (Header_Add h name v) k
     = (if k = CanonicalMIMEHeaderKey name then Header_values h k @ [v] else Header_values h k)"
  by (simp add: Header_Add_def Header_values_store Let_def)

lemma Header_values_Set:
  "Header_values (Header_Set h name v) k
     = (if k = CanonicalMIMEHeaderKey name then [v] else Header_values h k)"
  by (simp add: Header_Set_def Header_values_store)

lemma Header_values_addValues:
  "Header_values (addValues h name vs) k
     = (if k = CanonicalMIMEHeaderKey name then Header_values h k @ vs else Header_values h k)"
  unfolding addValues_def
  by (induction vs arbitrary: h) (simp_all add: Header_values_Add)


lemma Header_values_absent:
  assumes "k \<notin> set (map fst h)"
  shows "Header_values h k = []"
proof -
  from assms have "map_of h k = None"
    by (simp add: map_of_eq_None_iff)
  then show ?thesis
    by (simp add: Header_values_def)
qed

lemma Header_values_addHeaders:
  assumes "distinct (map fst hs)"
    and "list_all (\<lambda>k. CanonicalMIMEHeaderKey k = k) (map fst hs)"
  shows "Header_values (addHeaders h hs) k = Header_values h k @ Header_values hs k"
  using assms
proof (induction hs arbitrary: h)
  case Nil
  show ?case by (simp add: addHeaders_def Header_values_def)
next
  case (Cons p hs)
  obtain name vs where p: "p = (name, vs)"
    by (cases p)
  have step: "addHeaders h (p # hs) = addHeaders (addValues h name vs) hs"
    by (simp add: addHeaders_def p)
  have canon: "CanonicalMIMEHeaderKey name = name"
    using Cons.prems(2) by (simp add: p)
  have absent: "Header_values hs name = []"
    using Cons.prems(1) by (intro Header_values_absent) (simp add: p)
  have here: "Header_values (p # hs) k = (if k = name then vs else Header_values hs k)"
    by (simp add: Header_values_def p)
  have "Header_values (addHeaders (addValues h name vs) hs) k
      = Header_values (addValues h name vs) k @ Header_values hs k"
    using Cons.prems by (intro Cons.IH) simp_all
  then show ?case
    by (simp add: step here Header_values_addValues canon absent)
qed

text \<open>
  The order in which the range over the accumulated headers visits them does not matter:
  two lists of the same entries give the same values for every name.
\<close>

lemma addHeaders_order:
  assumes "distinct (map fst hs)" and "distinct (map fst hs')" and "set hs' = set hs"
    and "list_all (\<lambda>k. CanonicalMIMEHeaderKey k = k) (map fst hs)"
  shows "Header_values (addHeaders h hs') k = Header_values (addHeaders h hs) k"
proof -
  have "map_of hs' = map_of hs"
    using assms(1-3) by (simp add: map_of_inject_set)
  then have same: "Header_values hs' k = Header_values hs k"
    by (simp add: Header_values_def)
  have "list_all (\<lambda>k. CanonicalMIMEHeaderKey k = k) (map fst hs')"
    using assms(3,4) by (simp add: list_all_iff)
  then show ?thesis
    using assms(1,2,4) by (simp add: Header_values_addHeaders same)
qed

lemma headers_foldl_Header:
  "headers (foldl (\<lambda>r (name, value). Header r name value) r0 calls)
     = foldl (\<lambda>h (name, value). Header_Add h name value) (headers r0) calls"
  by (induction calls arbitrary: r0) (simp_all add: Header_def split_def)

lemma foldl_Header_Add:
  "Header_values (foldl (\<lambda>h (name, value). Header_Add h name value) h calls) k
     = Header_values h k
       @ map snd (filter (\<lambda>(name, value). CanonicalMIMEHeaderKey name = k) calls)"
  by (induction calls arbitrary: h) (auto simp add: Header_values_Add)

lemma foldl_Header_Add_keys:
  assumes "distinct (map fst h)" and "list_all (\<lambda>k. CanonicalMIMEHeaderKey k = k) (map fst h)"
  shows "distinct (map fst (foldl (\<lambda>h (name, value). Header_Add h name value) h calls))
     \<and> list_all (\<lambda>k. CanonicalMIMEHeaderKey k = k)
          (map fst (foldl (\<lambda>h (name, value). Header_Add h name value) h calls))"
  using assms
proof (induction calls arbitrary: h)
  case Nil
  then show ?case by simp
next
  case (Cons call calls)
  obtain name v where call: "call = (name, v)"
    by (cases call)
  have d: "distinct (map fst (Header_Add h name v))"
    using Cons.prems(1) by (simp add: Header_Add_def Let_def distinct_Header_store)
  have c: "list_all (\<lambda>k. CanonicalMIMEHeaderKey k = k) (map fst (Header_Add h name v))"
    using Cons.prems(2)
    by (simp add: Header_Add_def Let_def list_all_iff keys_Header_store
        CanonicalMIMEHeaderKey_idem del: set_map)
  show ?case
    using Cons.IH [OF d c] by (simp add: call)
qed

lemma HTTPRequest_Returns_Header:
  assumes "fst (HTTPRequest Encode request baseURL) = Returns req"
  shows "Request_Header req
     = Header_Set (Header_Set (addHeaders [] (headers request))
         ''Content-Type'' ''application/json'') ''Accept'' ''application/json''"
  using assms
  by (auto simp add: HTTPRequest_def NewRequest_def Let_def
      split: option.splits sum.splits if_splits)

text \<open>
  C8. Take a request built by any sequence of \<^verbatim>\<open>Header\<close> calls on a builder without
  headers. Its headers are a multi-valued mapping: under each canonical name it holds the
  values of all calls whose name has that canonical form, in the order of the calls, so a
  name that is set twice keeps both values. When \<^verbatim>\<open>HTTPRequest\<close> returns a request, the
  header of that request has exactly the one value \<^verbatim>\<open>application/json\<close> under
  \<^verbatim>\<open>Content-Type\<close> and under \<^verbatim>\<open>Accept\<close>, whatever the caller had set under these names,
  and under every other name it has the accumulated values unchanged.
\<close>

theorem HTTPRequest_headers:
  assumes "headers r0 = []"
    and "request = foldl (\<lambda>r (name, value). Header r name value) r0 calls"
    and "fst (HTTPRequest Encode request baseURL) = Returns req"
  shows "Header_values (headers request) k
           = map snd (filter (\<lambda>(name, value). CanonicalMIMEHeaderKey name = k) calls)
       \<and> Header_values (Request_Header req) ''Content-Type'' = [''application/json'']
       \<and> Header_values (Request_Header req) ''Accept'' = [''application/json'']
       \<and> (k \<noteq> ''Content-Type'' \<and> k \<noteq> ''Accept'' \<longrightarrow>
            Header_values (Request_Header req) k = Header_values (headers request) k)
       \<and> (CanonicalMIMEHeaderKey name = ''Content-Type''
            \<or> CanonicalMIMEHeaderKey name = ''Accept'' \<longrightarrow>
            Header_Get (Request_Header req) name = ''application/json'')"
proof -
  let ?h = "headers request"
  have h: "?h = foldl (\<lambda>h (name, value). Header_Add h name value) [] calls"
    by (simp add: assms(1,2) headers_foldl_Header)
  have vals: "Header_values ?h k
      = map snd (filter (\<lambda>(name, value). CanonicalMIMEHeaderKey name = k) calls)" for k
    by (simp add: h foldl_Header_Add Header_values_absent)
  have ks: "distinct (map fst ?h)"
    "list_all (\<lambda>k. CanonicalMIMEHeaderKey k = k) (map fst ?h)"
    using foldl_Header_Add_keys [of "[]" calls] by (simp_all add: h)
  have copied: "Header_values (addHeaders [] ?h) k = Header_values ?h k" for k
    using ks by (simp add: Header_values_addHeaders Header_values_absent)
  have ct: "CanonicalMIMEHeaderKey ''Content-Type'' = ''Content-Type''"
    by code_simp
  have ac: "CanonicalMIMEHeaderKey ''Accept'' = ''Accept''"
    by code_simp
  have req: "Header_values (Request_Header req) k
      = (if k = ''Accept'' \<or> k = ''Content-Type'' then [''application/json'']
         else Header_values ?h k)" for k
    by (simp add: HTTPRequest_Returns_Header [OF assms(3)] Header_values_Set ct ac copied)
  show ?thesis
    by (auto simp add: vals req Header_Get_def)
qed

theorem HTTPRequest_headers_witness:
  "headers (JSONRequest ''GET'' ''some/path'' :: string jsonRequest) = []
   \<and> Header_values
        (headers (Header (Header (Header (JSONRequest ''GET'' ''some/path'' :: string jsonRequest)
           ''content-type'' ''text/xml'') ''X-Foo-Status'' ''bar'') ''x-foo-status'' ''baz''))
        ''Content-Type'' = [''text/xml'']
   \<and> (case fst (HTTPRequest (writing [])
         (Header (Header (Header (JSONRequest ''GET'' ''some/path'' :: string jsonRequest)
           ''content-type'' ''text/xml'') ''X-Foo-Status'' ''bar'') ''x-foo-status'' ''baz'')
         requestURL) of
         Returns req \<Rightarrow>
           Header_values (Request_Header req) ''Content-Type'' = [''application/json'']
           \<and> Header_values (Request_Header req) ''Accept'' = [''application/json'']
           \<and> Header_values (Request_Header req) ''X-Foo-Status'' = [''bar'', ''baz'']
           \<and> Header_Get (Request_Header req) ''content-type'' = ''application/json''
       | _ \<Rightarrow> False)"
proof -
  let ?r0 = "JSONRequest ''GET'' ''some/path'' :: string jsonRequest"
  let ?calls = "[(''content-type'', ''text/xml''), (''X-Foo-Status'', ''bar''),
      (''x-foo-status'', ''baz'')]"
  let ?R = "Header (Header (Header ?r0 ''content-type'' ''text/xml'') ''X-Foo-Status'' ''bar'')
      ''x-foo-status'' ''baz''"
  let ?out = "HTTPRequest (writing []) ?R requestURL"
  have r0: "headers ?r0 = []"
    by (simp add: JSONRequest_def)
  have R: "?R = foldl (\<lambda>r (name, value). Header r name value) ?r0 ?calls"
    by simp
  have "(case fst ?out of Returns req \<Rightarrow> True | _ \<Rightarrow> False)"
    by code_simp
  then obtain req where req: "fst ?out = Returns req"
    by (cases "fst ?out") simp_all
  have c1: "CanonicalMIMEHeaderKey ''content-type'' = ''Content-Type''"
    by code_simp
  have c2: "CanonicalMIMEHeaderKey ''X-Foo-Status'' = ''X-Foo-Status''"
    by code_simp
  have c3: "CanonicalMIMEHeaderKey ''x-foo-status'' = ''X-Foo-Status''"
    by code_simp
  from HTTPRequest_headers [OF r0 R req, of "''Content-Type''" "''content-type''"]
  have 1: "Header_values (headers ?R) ''Content-Type'' = [''text/xml'']"
    "Header_values (Request_Header req) ''Content-Type'' = [''application/json'']"
    "Header_values (Request_Header req) ''Accept'' = [''application/json'']"
    "Header_Get (Request_Header req) ''content-type'' = ''application/json''"
    by (simp_all add: c1 c2 c3)
  from HTTPRequest_headers [OF r0 R req, of "''X-Foo-Status''" "''content-type''"]
  have 2: "Header_values (Request_Header req) ''X-Foo-Status'' = [''bar'', ''baz'']"
    by (simp add: c1 c2 c3)
  from r0 1 2 req show ?thesis
    by simp
qed

end
